theory Spec2Isabelle
  imports Main "HOL-Library.Sublist"
begin

section \<open>Data model of dewallet_cc.go\<close>

text \<open>
  Go strings and byte slices are both modelled as \<open>string\<close> (a list of bytes).  A Go
  \<open>error\<close> is modelled by its message; \<open>None\<close> of type \<open>string option\<close> is the
  \<open>nil\<close> error.  A slice is a list: the \<open>nil\<close> slice and the empty slice are both
  \<open>[]\<close> (they iterate and append alike).
\<close>

type_synonym bytes = string

record Key =
  Owner :: string
  Key :: string

record Identity =
  Username :: string
  PublicKey :: string
  EPublicKey :: string
  SPublicKey :: string
  Data :: string
  Verified :: string
  Keys :: "Key list"

record updateUserDataRequest =
  Username :: string
  Data :: string

record addKeyRequest =
  Username :: string
  Owner :: string
  Key :: string

record addKeyResponse =
  Owner :: string
  Key :: string

record getPublicKeyRequest =
  Username :: string

record getPublicKeyResponse =
  PublicKey :: string
  EPublicKey :: string

record getUserDataRequest =
  Username :: string
  Owner :: string

record getUserDataResponse =
  PublicKey :: string
  EPublicKey :: string
  SPublicKey :: string
  Data :: string
  Key :: string

text \<open>The zero values that \<open>var x T\<close> declares.\<close>

definition zero_Identity :: Identity where
  "zero_Identity = \<lparr>Identity.Username = [], Identity.PublicKey = [], Identity.EPublicKey = [],
     Identity.SPublicKey = [], Identity.Data = [], Identity.Verified = [], Identity.Keys = []\<rparr>"

definition zero_updateUserDataRequest :: updateUserDataRequest where
  "zero_updateUserDataRequest =
     \<lparr>updateUserDataRequest.Username = [], updateUserDataRequest.Data = []\<rparr>"

definition zero_addKeyRequest :: addKeyRequest where
  "zero_addKeyRequest =
     \<lparr>addKeyRequest.Username = [], addKeyRequest.Owner = [], addKeyRequest.Key = []\<rparr>"

definition zero_getPublicKeyRequest :: getPublicKeyRequest where
  "zero_getPublicKeyRequest = \<lparr>getPublicKeyRequest.Username = []\<rparr>"

definition zero_getUserDataRequest :: getUserDataRequest where
  "zero_getUserDataRequest =
     \<lparr>getUserDataRequest.Username = [], getUserDataRequest.Owner = []\<rparr>"

section \<open>The imported packages and the chaincode stub\<close>

text \<open>
  The result of \<open>x509.ParsePKIXPublicKey\<close> as far as the type switch of
  \<open>VerifySignature\<close> looks at it: an RSA key (modulus, exponent) or a key of another kind.
\<close>

datatype pkix_key = RSA_PublicKey int int | Other_PublicKey

text \<open>
  The functions of \<open>encoding/json\<close>, \<open>encoding/hex\<close>, \<open>encoding/base64\<close>,
  \<open>crypto/x509\<close>, \<open>crypto/sha256\<close> and \<open>crypto/rsa\<close> that the chaincode calls are
  parameters of the model, one field each.  \<open>json.Unmarshal\<close> takes the bytes and the
  target it writes into, and returns the target afterwards with the error.  The decoders
  return the bytes they produced together with the error, as in Go.

  \<open>GetState_err\<close> and \<open>PutState_err\<close> say for which keys the backing store reports an
  error.
\<close>

record externals =
  json_Unmarshal_Identity :: "bytes \<Rightarrow> Identity \<Rightarrow> Identity \<times> string option"
  json_Unmarshal_updateUserDataRequest ::
    "bytes \<Rightarrow> updateUserDataRequest \<Rightarrow> updateUserDataRequest \<times> string option"
  json_Unmarshal_addKeyRequest :: "bytes \<Rightarrow> addKeyRequest \<Rightarrow> addKeyRequest \<times> string option"
  json_Unmarshal_getPublicKeyRequest ::
    "bytes \<Rightarrow> getPublicKeyRequest \<Rightarrow> getPublicKeyRequest \<times> string option"
  json_Unmarshal_getUserDataRequest ::
    "bytes \<Rightarrow> getUserDataRequest \<Rightarrow> getUserDataRequest \<times> string option"
  json_Marshal_Identity :: "Identity \<Rightarrow> bytes"
  json_Marshal_addKeyResponse :: "addKeyResponse \<Rightarrow> bytes"
  json_Marshal_getPublicKeyResponse :: "getPublicKeyResponse \<Rightarrow> bytes"
  json_Marshal_getUserDataResponse :: "getUserDataResponse \<Rightarrow> bytes"
  hex_DecodeString :: "string \<Rightarrow> bytes \<times> string option"
  base64_DecodeString :: "string \<Rightarrow> bytes \<times> string option"
  x509_ParsePKIXPublicKey :: "bytes \<Rightarrow> string + pkix_key"
  sha256_Sum256 :: "bytes \<Rightarrow> bytes"
  rsa_VerifyPKCS1v15 :: "int \<Rightarrow> int \<Rightarrow> bytes \<Rightarrow> bytes \<Rightarrow> string option"
  GetState_err :: "string \<Rightarrow> string option"
  PutState_err :: "string \<Rightarrow> bytes \<Rightarrow> string option"

text \<open>The ledger state: the value stored under each key, if any.\<close>

type_synonym ledger = "string \<rightharpoonup> bytes"

text \<open>
  Modelled from the spec: the state boundary \<open>GetState(key) -> bytes | absent\<close> and
  \<open>PutState(key, value) -> Result\<close> of the external key-value store (the stub's
  implementation is not part of the repository).  A read returns the stored bytes, or
  \<open>nil\<close> for an absent key; a write that the store accepts replaces the value under the
  key; a call that the store fails leaves the state as it is.
\<close>

definition GetState :: "externals \<Rightarrow> ledger \<Rightarrow> string \<Rightarrow> bytes option \<times> string option" where
  "GetState X st k = (case GetState_err X k of Some err \<Rightarrow> (None, Some err) | None \<Rightarrow> (st k, None))"

definition PutState :: "externals \<Rightarrow> ledger \<Rightarrow> string \<Rightarrow> bytes \<Rightarrow> ledger \<times> string option" where
  "PutState X st k v =
     (case PutState_err X k v of Some err \<Rightarrow> (st, Some err) | None \<Rightarrow> (st(k \<mapsto> v), None))"

text \<open>\<open>pb.Response\<close>, as built by \<open>shim.Success\<close> and \<open>shim.Error\<close>.\<close>

datatype Response = Success bytes | Error string

text \<open>An index expression \<open>args[i]\<close> outside the slice panics.\<close>

datatype panic = IndexOutOfRange

section \<open>VerifySignature\<close>

definition VerifySignature :: "externals \<Rightarrow> string list \<Rightarrow> string \<Rightarrow> panic + string option" where
  "VerifySignature X args publicKey =
     (case args of
        [] \<Rightarrow> Inl IndexOutOfRange
      | m # args' \<Rightarrow>
         (case args' of
            [] \<Rightarrow> Inl IndexOutOfRange
          | sg # _ \<Rightarrow>
             (case hex_DecodeString X sg of
                (s, Some err) \<Rightarrow> Inr (Some (''Error in decoding signature '' @ err))
              | (s, None) \<Rightarrow>
                 (case base64_DecodeString X publicKey of
                    (pkBytes, err) \<Rightarrow>
                      (case x509_ParsePKIXPublicKey X pkBytes of
                         Inl err \<Rightarrow>
                           Inr (Some (''Error in parsing key '' @ publicKey @ '' '' @ err))
                       | Inr (RSA_PublicKey n e) \<Rightarrow>
                           (case rsa_VerifyPKCS1v15 X n e (sha256_Sum256 X m) s of
                              Some err \<Rightarrow> Inr (Some (''Error in verifying signature '' @ err))
                            | None \<Rightarrow> Inr None)
                       | Inr Other_PublicKey \<Rightarrow> Inr (Some ''Key is not RSA''))))))"

section \<open>The handlers\<close>

type_synonym result = "(panic + Response) \<times> ledger"

definition Register :: "externals \<Rightarrow> ledger \<Rightarrow> string list \<Rightarrow> result" where
  "Register X st args =
     (case args of
        [] \<Rightarrow> (Inl IndexOutOfRange, st)
      | a0 # _ \<Rightarrow>
         (let i = fst (json_Unmarshal_Identity X a0 zero_Identity);
              i = i\<lparr>Identity.Keys := []\<rparr>;
              iBytes = json_Marshal_Identity X i
          in case PutState X st (Identity.Username i) iBytes of
               (st', Some err) \<Rightarrow> (Inr (Error err), st')
             | (st', None) \<Rightarrow> (Inr (Success iBytes), st')))"

definition UpdateUserData :: "externals \<Rightarrow> ledger \<Rightarrow> string list \<Rightarrow> result" where
  "UpdateUserData X st args =
     (case args of
        [] \<Rightarrow> (Inl IndexOutOfRange, st)
      | a0 # _ \<Rightarrow>
         (let r = fst (json_Unmarshal_updateUserDataRequest X a0 zero_updateUserDataRequest)
          in case GetState X st (updateUserDataRequest.Username r) of
               (_, Some err) \<Rightarrow> (Inr (Error ''Failed to get state''), st)
             | (None, None) \<Rightarrow> (Inr (Error ''Username not found''), st)
             | (Some iBytes, None) \<Rightarrow>
                 (let i = fst (json_Unmarshal_Identity X iBytes zero_Identity)
                  in case VerifySignature X args (Identity.SPublicKey i) of
                       Inl p \<Rightarrow> (Inl p, st)
                     | Inr (Some err) \<Rightarrow> (Inr (Error (''Can't verify signature '' @ err)), st)
                     | Inr None \<Rightarrow>
                         (let i = i\<lparr>Identity.Data := updateUserDataRequest.Data r\<rparr>;
                              iBytes = json_Marshal_Identity X i
                          in case PutState X st (Identity.Username i) iBytes of
                               (st', Some err) \<Rightarrow> (Inr (Error err), st')
                             | (st', None) \<Rightarrow> (Inr (Success iBytes), st')))))"

definition AddKey :: "externals \<Rightarrow> ledger \<Rightarrow> string list \<Rightarrow> result" where
  "AddKey X st args =
     (case args of
        [] \<Rightarrow> (Inl IndexOutOfRange, st)
      | a0 # _ \<Rightarrow>
         (let r = fst (json_Unmarshal_addKeyRequest X a0 zero_addKeyRequest)
          in case GetState X st (addKeyRequest.Username r) of
               (_, Some err) \<Rightarrow> (Inr (Error ''Failed to get state''), st)
             | (None, None) \<Rightarrow> (Inr (Error ''Username not found''), st)
             | (Some iBytes, None) \<Rightarrow>
                 (let key = \<lparr>Key.Owner = addKeyRequest.Owner r, Key.Key = addKeyRequest.Key r\<rparr>;
                      i = fst (json_Unmarshal_Identity X iBytes zero_Identity)
                  in case VerifySignature X args (Identity.SPublicKey i) of
                       Inl p \<Rightarrow> (Inl p, st)
                     | Inr (Some err) \<Rightarrow> (Inr (Error (''Can't verify signature '' @ err)), st)
                     | Inr None \<Rightarrow>
                         (let i = i\<lparr>Identity.Keys := Identity.Keys i @ [key]\<rparr>;
                              iBytes = json_Marshal_Identity X i
                          in case PutState X st (Identity.Username i) iBytes of
                               (st', Some err) \<Rightarrow> (Inr (Error err), st')
                             | (st', None) \<Rightarrow>
                                 (let res = \<lparr>addKeyResponse.Owner = addKeyRequest.Owner r,
                                             addKeyResponse.Key = addKeyRequest.Key r\<rparr>
                                  in (Inr (Success (json_Marshal_addKeyResponse X res)), st'))))))"

definition GetPublicKey :: "externals \<Rightarrow> ledger \<Rightarrow> string list \<Rightarrow> result" where
  "GetPublicKey X st args =
     (case args of
        [] \<Rightarrow> (Inl IndexOutOfRange, st)
      | a0 # _ \<Rightarrow>
         (let req = fst (json_Unmarshal_getPublicKeyRequest X a0 zero_getPublicKeyRequest)
          in case GetState X st (getPublicKeyRequest.Username req) of
               (_, Some err) \<Rightarrow> (Inr (Error ''Failed to get state''), st)
             | (None, None) \<Rightarrow> (Inr (Error ''Username not found''), st)
             | (Some iBytes, None) \<Rightarrow>
                 (let i = fst (json_Unmarshal_Identity X iBytes zero_Identity);
                      res = \<lparr>getPublicKeyResponse.PublicKey = Identity.PublicKey i,
                             getPublicKeyResponse.EPublicKey = Identity.EPublicKey i\<rparr>
                  in (Inr (Success (json_Marshal_getPublicKeyResponse X res)), st))))"

text \<open>The loop of \<open>GetUserData\<close> over \<open>i.Keys\<close>, with \<open>keyResult\<close> as accumulator.\<close>

fun keyResult_loop :: "string \<Rightarrow> Key list \<Rightarrow> string \<Rightarrow> string" where
  "keyResult_loop owner [] keyResult = keyResult"
| "keyResult_loop owner (key # keys) keyResult =
     keyResult_loop owner keys (if Key.Owner key = owner then Key.Key key else keyResult)"

definition GetUserData :: "externals \<Rightarrow> ledger \<Rightarrow> string list \<Rightarrow> result" where
  "GetUserData X st args =
     (case args of
        [] \<Rightarrow> (Inl IndexOutOfRange, st)
      | a0 # _ \<Rightarrow>
         (let req = fst (json_Unmarshal_getUserDataRequest X a0 zero_getUserDataRequest)
          in case GetState X st (getUserDataRequest.Username req) of
               (_, Some err) \<Rightarrow> (Inr (Error ''Failed to get state''), st)
             | (None, None) \<Rightarrow> (Inr (Error ''Username not found''), st)
             | (Some iBytes, None) \<Rightarrow>
                 (let i = fst (json_Unmarshal_Identity X iBytes zero_Identity);
                      keyResult = keyResult_loop (getUserDataRequest.Owner req) (Identity.Keys i) [];
                      res = \<lparr>getUserDataResponse.PublicKey = Identity.PublicKey i,
                             getUserDataResponse.EPublicKey = Identity.EPublicKey i,
                             getUserDataResponse.SPublicKey = Identity.SPublicKey i,
                             getUserDataResponse.Data = Identity.Data i,
                             getUserDataResponse.Key = keyResult\<rparr>
                  in (Inr (Success (json_Marshal_getUserDataResponse X res)), st))))"

section \<open>Invoke\<close>

text \<open>
  \<open>function\<close> and \<open>args\<close> are what \<open>stub.GetFunctionAndParameters()\<close> returned.
\<close>

definition unknown_action :: string where
  "unknown_action =
     ''Unknown action, check the first argument, must be one of 'Register', 'GetPublicKey'. But got: ''"

definition Invoke :: "externals \<Rightarrow> ledger \<Rightarrow> string \<Rightarrow> string list \<Rightarrow> result" where
  "Invoke X st function args =
     (if function = ''Register'' then Register X st args
      else if function = ''UpdateUserData'' then UpdateUserData X st args
      else if function = ''AddKey'' then AddKey X st args
      else if function = ''GetPublicKey'' then GetPublicKey X st args
      else if function = ''GetUserData'' then GetUserData X st args
      else (case args of
              [] \<Rightarrow> (Inl IndexOutOfRange, st)
            | a0 # _ \<Rightarrow> (Inr (Error (unknown_action @ a0)), st)))"

section \<open>Notions used to state the properties\<close>

text \<open>The identity that a handler reads from the state under a username, and its keys.\<close>

definition stored_Identity :: "externals \<Rightarrow> ledger \<Rightarrow> string \<Rightarrow> Identity option" where
  "stored_Identity X st u =
     map_option (\<lambda>iBytes. fst (json_Unmarshal_Identity X iBytes zero_Identity)) (st u)"

definition stored_keys :: "externals \<Rightarrow> ledger \<Rightarrow> string \<Rightarrow> Key list" where
  "stored_keys X st u = (case stored_Identity X st u of None \<Rightarrow> [] | Some i \<Rightarrow> Identity.Keys i)"

text \<open>Decoding an encoded identity gives the identity back.\<close>

definition codec_roundtrip :: "externals \<Rightarrow> bool" where
  "codec_roundtrip X =
     (\<forall>i. fst (json_Unmarshal_Identity X (json_Marshal_Identity X i) zero_Identity) = i)"

text \<open>The ledger states that invocations produce from the empty ledger.\<close>

inductive reachable :: "externals \<Rightarrow> ledger \<Rightarrow> bool" for X :: externals where
  reachable_empty: "reachable X Map.empty"
| reachable_Invoke: "reachable X st \<Longrightarrow> Invoke X st function args = (r, st') \<Longrightarrow> reachable X st'"

text \<open>Every record is stored under the username it carries.\<close>

definition keyed_by_username :: "externals \<Rightarrow> ledger \<Rightarrow> bool" where
  "keyed_by_username X st =
     (\<forall>u i. stored_Identity X st u = Some i \<longrightarrow> Identity.Username i = u)"

text \<open>
  The key of the last entry of \<open>keys\<close> whose owner is \<open>owner\<close>, and the empty string when
  there is none: the lookup as the specification words it.
\<close>

definition last_key_for :: "string \<Rightarrow> Key list \<Rightarrow> string" where
  "last_key_for owner keys =
     (case filter (\<lambda>k. Key.Owner k = owner) keys of [] \<Rightarrow> [] | k # ks \<Rightarrow> Key.Key (last (k # ks)))"

text \<open>The same packages, with every error that \<open>json.Unmarshal\<close> returns replaced by \<open>nil\<close>.\<close>

definition without_Unmarshal_errors :: "externals \<Rightarrow> externals" where
  "without_Unmarshal_errors X = X
     \<lparr>json_Unmarshal_Identity := \<lambda>b t. (fst (json_Unmarshal_Identity X b t), None),
      json_Unmarshal_updateUserDataRequest :=
        \<lambda>b t. (fst (json_Unmarshal_updateUserDataRequest X b t), None),
      json_Unmarshal_addKeyRequest := \<lambda>b t. (fst (json_Unmarshal_addKeyRequest X b t), None),
      json_Unmarshal_getPublicKeyRequest :=
        \<lambda>b t. (fst (json_Unmarshal_getPublicKeyRequest X b t), None),
      json_Unmarshal_getUserDataRequest :=
        \<lambda>b t. (fst (json_Unmarshal_getUserDataRequest X b t), None)\<rparr>"

section \<open>An executable instance of the imported packages\<close>

text \<open>
  A small stand-in for the packages, on which the handlers can be run: objects are
  sequences of tokens (field name, value, field name, value, ...), each token closed by
  \<open>;\<close>, with \<open>%\<close> as escape character; the keys of an identity are a nested sequence
  (owner, key, owner, key, ...).  As with \<open>encoding/json\<close>, a field that the input does
  not mention keeps the target's value, and an input that is not well formed leaves the
  target untouched and returns an error.
\<close>

fun enc_str :: "string \<Rightarrow> string" where
  "enc_str [] = '';''"
| "enc_str (c # cs) =
     (if c = CHR '';'' \<or> c = CHR ''%'' then CHR ''%'' # c # enc_str cs else c # enc_str cs)"

definition enc_tokens :: "string list \<Rightarrow> string" where
  "enc_tokens ts = concat (map enc_str ts)"

fun tokens :: "string \<Rightarrow> string \<Rightarrow> string list" where
  "tokens acc [] = []"
| "tokens acc (c # cs) =
     (if c = CHR ''%'' then (case cs of [] \<Rightarrow> [] | d # ds \<Rightarrow> tokens (d # acc) ds)
      else if c = CHR '';'' then rev acc # tokens [] cs
      else tokens (c # acc) cs)"

fun pairs_of :: "string list \<Rightarrow> (string \<times> string) list" where
  "pairs_of (a # b # ts) = (a, b) # pairs_of ts"
| "pairs_of ts = []"

fun keys_of_tokens :: "string list \<Rightarrow> Key list" where
  "keys_of_tokens (a # b # ts) = \<lparr>Key.Owner = a, Key.Key = b\<rparr> # keys_of_tokens ts"
| "keys_of_tokens ts = []"

fun tokens_of_keys :: "Key list \<Rightarrow> string list" where
  "tokens_of_keys [] = []"
| "tokens_of_keys (k # ks) = Key.Owner k # Key.Key k # tokens_of_keys ks"

definition well_formed :: "bytes \<Rightarrow> bool" where
  "well_formed b = (enc_tokens (tokens [] b) = b \<and> even (length (tokens [] b)))"

definition field :: "bytes \<Rightarrow> string \<Rightarrow> string \<Rightarrow> string" where
  "field b name dflt = (case map_of (pairs_of (tokens [] b)) name of Some v \<Rightarrow> v | None \<Rightarrow> dflt)"

definition syntax_error :: "string option" where
  "syntax_error = Some ''invalid character''"

definition demo_Unmarshal_Identity :: "bytes \<Rightarrow> Identity \<Rightarrow> Identity \<times> string option" where
  "demo_Unmarshal_Identity b t =
     (if \<not> well_formed b then (t, syntax_error)
      else (\<lparr>Identity.Username = field b ''username'' (Identity.Username t),
             Identity.PublicKey = field b ''publicKey'' (Identity.PublicKey t),
             Identity.EPublicKey = field b ''ePublicKey'' (Identity.EPublicKey t),
             Identity.SPublicKey = field b ''sPublicKey'' (Identity.SPublicKey t),
             Identity.Data = field b ''data'' (Identity.Data t),
             Identity.Verified = field b ''verified'' (Identity.Verified t),
             Identity.Keys =
               (case map_of (pairs_of (tokens [] b)) ''keys'' of
                  None \<Rightarrow> Identity.Keys t
                | Some v \<Rightarrow> keys_of_tokens (tokens [] v))\<rparr>, None))"

definition demo_Marshal_Identity :: "Identity \<Rightarrow> bytes" where
  "demo_Marshal_Identity i =
     enc_tokens [''username'', Identity.Username i, ''publicKey'', Identity.PublicKey i,
       ''ePublicKey'', Identity.EPublicKey i, ''sPublicKey'', Identity.SPublicKey i,
       ''data'', Identity.Data i, ''verified'', Identity.Verified i,
       ''keys'', enc_tokens (tokens_of_keys (Identity.Keys i))]"

definition demo_Unmarshal_updateUserDataRequest ::
    "bytes \<Rightarrow> updateUserDataRequest \<Rightarrow> updateUserDataRequest \<times> string option" where
  "demo_Unmarshal_updateUserDataRequest b t =
     (if \<not> well_formed b then (t, syntax_error)
      else (\<lparr>updateUserDataRequest.Username = field b ''username'' (updateUserDataRequest.Username t),
             updateUserDataRequest.Data = field b ''data'' (updateUserDataRequest.Data t)\<rparr>, None))"

definition demo_Unmarshal_addKeyRequest ::
    "bytes \<Rightarrow> addKeyRequest \<Rightarrow> addKeyRequest \<times> string option" where
  "demo_Unmarshal_addKeyRequest b t =
     (if \<not> well_formed b then (t, syntax_error)
      else (\<lparr>addKeyRequest.Username = field b ''username'' (addKeyRequest.Username t),
             addKeyRequest.Owner = field b ''owner'' (addKeyRequest.Owner t),
             addKeyRequest.Key = field b ''key'' (addKeyRequest.Key t)\<rparr>, None))"

definition demo_Unmarshal_getPublicKeyRequest ::
    "bytes \<Rightarrow> getPublicKeyRequest \<Rightarrow> getPublicKeyRequest \<times> string option" where
  "demo_Unmarshal_getPublicKeyRequest b t =
     (if \<not> well_formed b then (t, syntax_error)
      else (\<lparr>getPublicKeyRequest.Username = field b ''username'' (getPublicKeyRequest.Username t)\<rparr>,
            None))"

definition demo_Unmarshal_getUserDataRequest ::
    "bytes \<Rightarrow> getUserDataRequest \<Rightarrow> getUserDataRequest \<times> string option" where
  "demo_Unmarshal_getUserDataRequest b t =
     (if \<not> well_formed b then (t, syntax_error)
      else (\<lparr>getUserDataRequest.Username = field b ''username'' (getUserDataRequest.Username t),
             getUserDataRequest.Owner = field b ''owner'' (getUserDataRequest.Owner t)\<rparr>, None))"

definition demo_Marshal_addKeyResponse :: "addKeyResponse \<Rightarrow> bytes" where
  "demo_Marshal_addKeyResponse r =
     enc_tokens [''owner'', addKeyResponse.Owner r, ''key'', addKeyResponse.Key r]"

definition demo_Marshal_getPublicKeyResponse :: "getPublicKeyResponse \<Rightarrow> bytes" where
  "demo_Marshal_getPublicKeyResponse r =
     enc_tokens [''publicKey'', getPublicKeyResponse.PublicKey r,
       ''ePublicKey'', getPublicKeyResponse.EPublicKey r]"

definition demo_Marshal_getUserDataResponse :: "getUserDataResponse \<Rightarrow> bytes" where
  "demo_Marshal_getUserDataResponse r =
     enc_tokens [''publicKey'', getUserDataResponse.PublicKey r,
       ''ePublicKey'', getUserDataResponse.EPublicKey r,
       ''sPublicKey'', getUserDataResponse.SPublicKey r,
       ''data'', getUserDataResponse.Data r, ''key'', getUserDataResponse.Key r]"

text \<open>
  The stand-in for the signature scheme keeps the shape of the real one and none of its
  strength.  The decoders accept their alphabet and return what they read before the
  first character outside it, with an error if there is one; a key is \<open>R\<close> or \<open>D\<close>
  followed by key material, \<open>R\<close> for RSA; a signature fits a digest and a key when its
  length is the sum of their lengths.
\<close>

definition demo_hex_DecodeString :: "string \<Rightarrow> bytes \<times> string option" where
  "demo_hex_DecodeString s =
     (takeWhile (\<lambda>c. c \<in> set ''0123456789abcdef'') s,
      if \<forall>c \<in> set s. c \<in> set ''0123456789abcdef'' then None
      else Some ''encoding/hex: invalid byte'')"

definition demo_base64_DecodeString :: "string \<Rightarrow> bytes \<times> string option" where
  "demo_base64_DecodeString s =
     (takeWhile (\<lambda>c. c \<noteq> CHR ''!'') s,
      if CHR ''!'' \<in> set s then Some ''illegal base64 data'' else None)"

definition demo_ParsePKIXPublicKey :: "bytes \<Rightarrow> string + pkix_key" where
  "demo_ParsePKIXPublicKey b =
     (case b of
        [] \<Rightarrow> Inl ''asn1: syntax error''
      | c # k \<Rightarrow>
         (if c = CHR ''R'' then Inr (RSA_PublicKey (int (length k)) 65537)
          else if c = CHR ''D'' then Inr Other_PublicKey
          else Inl ''asn1: structure error''))"

definition demo_VerifyPKCS1v15 :: "int \<Rightarrow> int \<Rightarrow> bytes \<Rightarrow> bytes \<Rightarrow> string option" where
  "demo_VerifyPKCS1v15 n e h s =
     (if int (length s) = n + int (length h) then None
      else Some ''crypto/rsa: verification error'')"

definition demo :: externals where
  "demo =
     \<lparr>json_Unmarshal_Identity = demo_Unmarshal_Identity,
      json_Unmarshal_updateUserDataRequest = demo_Unmarshal_updateUserDataRequest,
      json_Unmarshal_addKeyRequest = demo_Unmarshal_addKeyRequest,
      json_Unmarshal_getPublicKeyRequest = demo_Unmarshal_getPublicKeyRequest,
      json_Unmarshal_getUserDataRequest = demo_Unmarshal_getUserDataRequest,
      json_Marshal_Identity = demo_Marshal_Identity,
      json_Marshal_addKeyResponse = demo_Marshal_addKeyResponse,
      json_Marshal_getPublicKeyResponse = demo_Marshal_getPublicKeyResponse,
      json_Marshal_getUserDataResponse = demo_Marshal_getUserDataResponse,
      hex_DecodeString = demo_hex_DecodeString,
      base64_DecodeString = demo_base64_DecodeString,
      x509_ParsePKIXPublicKey = demo_ParsePKIXPublicKey,
      sha256_Sum256 = (\<lambda>m. m),
      rsa_VerifyPKCS1v15 = demo_VerifyPKCS1v15,
      GetState_err = (\<lambda>k. None),
      PutState_err = (\<lambda>k v. None)\<rparr>"

text \<open>
  The same instance over a store that refuses to write under the empty key.
\<close>

definition demo_refusing_empty_key :: externals where
  "demo_refusing_empty_key =
     demo\<lparr>PutState_err := \<lambda>k v. if k = [] then Some ''key must not be an empty string'' else None\<rparr>"

section \<open>Facts about the executable instance\<close>

lemma tokens_enc_str: "tokens acc (enc_str s @ rest) = (rev acc @ s) # tokens [] rest"
  by (induction s arbitrary: acc) auto

lemma tokens_enc_tokens_append: "tokens [] (enc_tokens ts @ rest) = ts @ tokens [] rest"
  by (induction ts) (auto simp: enc_tokens_def tokens_enc_str)

lemma tokens_enc_tokens: "tokens [] (enc_tokens ts) = ts"
  using tokens_enc_tokens_append [of ts "[]"] by simp

lemma keys_of_tokens_of_keys: "keys_of_tokens (tokens_of_keys ks) = ks"
  by (induction ks) auto

lemma demo_Unmarshal_Marshal: "fst (demo_Unmarshal_Identity (demo_Marshal_Identity i) t) = i"
  by (simp add: demo_Unmarshal_Identity_def demo_Marshal_Identity_def well_formed_def
      field_def tokens_enc_tokens keys_of_tokens_of_keys)

lemma codec_roundtrip_demo: "codec_roundtrip demo"
  by (simp add: codec_roundtrip_def demo_def demo_Unmarshal_Marshal)

lemmas demo_simps = demo_def demo_Unmarshal_Identity_def demo_Unmarshal_updateUserDataRequest_def
  demo_Unmarshal_addKeyRequest_def demo_Unmarshal_getPublicKeyRequest_def
  demo_Unmarshal_getUserDataRequest_def demo_Marshal_Identity_def demo_Marshal_addKeyResponse_def
  demo_Marshal_getPublicKeyResponse_def demo_Marshal_getUserDataResponse_def
  well_formed_def field_def enc_tokens_def
  demo_hex_DecodeString_def demo_base64_DecodeString_def demo_ParsePKIXPublicKey_def
  demo_VerifyPKCS1v15_def syntax_error_def
  zero_Identity_def zero_updateUserDataRequest_def zero_addKeyRequest_def
  zero_getPublicKeyRequest_def zero_getUserDataRequest_def

lemmas handler_defs = Invoke_def Register_def UpdateUserData_def AddKey_def GetPublicKey_def
  GetUserData_def GetState_def PutState_def VerifySignature_def Let_def

section \<open>The state after a handler\<close>

lemma Register_error: "Register X st args = (Inr (Error msg), st') \<Longrightarrow> st' = st"
  by (auto simp: Register_def PutState_def Let_def
      split: list.splits option.splits prod.splits)

lemma UpdateUserData_error: "UpdateUserData X st args = (Inr (Error msg), st') \<Longrightarrow> st' = st"
  by (auto simp: UpdateUserData_def PutState_def GetState_def Let_def
      split: list.splits option.splits prod.splits sum.splits)

lemma AddKey_error: "AddKey X st args = (Inr (Error msg), st') \<Longrightarrow> st' = st"
  by (auto simp: AddKey_def PutState_def GetState_def Let_def
      split: list.splits option.splits prod.splits sum.splits)

lemma GetPublicKey_state: "snd (GetPublicKey X st args) = st"
  by (simp add: GetPublicKey_def GetState_def Let_def
      split: list.splits option.splits prod.splits)

lemma GetUserData_state: "snd (GetUserData X st args) = st"
  by (simp add: GetUserData_def GetState_def Let_def
      split: list.splits option.splits prod.splits)

lemma GetPublicKey_error: "GetPublicKey X st args = (r, st') \<Longrightarrow> st' = st"
  using GetPublicKey_state [of X st args] by simp

lemma GetUserData_error: "GetUserData X st args = (r, st') \<Longrightarrow> st' = st"
  using GetUserData_state [of X st args] by simp

text \<open>
  C10.  \<open>GetPublicKey\<close> and \<open>GetUserData\<close> never write to the ledger state: whatever the
  arguments and whatever the outcome (a success, an error response or a panic), the state
  after the invocation is the state before it, for every username.
\<close>

theorem reads_leave_state:
  "snd (GetPublicKey X st args) = st \<and> snd (GetUserData X st args) = st"
  by (simp add: GetPublicKey_state GetUserData_state)

text \<open>
  C3.  When any of the five handlers returns an error response, for whatever reason (the
  store failed the read or the write, the username is not stored, the signature did not
  verify), the ledger state is the state before the invocation.
\<close>

theorem error_response_leaves_state:
  assumes "handler \<in> {Register X, UpdateUserData X, AddKey X, GetPublicKey X, GetUserData X}"
      and "handler st args = (Inr (Error msg), st')"
  shows "st' = st"
  using assms
  by (auto dest: Register_error UpdateUserData_error AddKey_error
      GetPublicKey_error GetUserData_error)

theorem error_response_leaves_state_witness:
  "AddKey demo \<in> {Register demo, UpdateUserData demo, AddKey demo, GetPublicKey demo, GetUserData demo}
   \<and> fst (AddKey demo [''alice'' \<mapsto> ''username;alice;sPublicKey;Rk;'']
            [''username;alice;owner;bob;key;ABC;'', ''00''])
       = Inr (Error ''Can't verify signature Error in verifying signature crypto/rsa: verification error'')
   \<and> snd (AddKey demo [''alice'' \<mapsto> ''username;alice;sPublicKey;Rk;'']
            [''username;alice;owner;bob;key;ABC;'', ''00''])
       = [''alice'' \<mapsto> ''username;alice;sPublicKey;Rk;'']"
proof -
  let ?st = "[''alice'' \<mapsto> ''username;alice;sPublicKey;Rk;'']"
  let ?args = "[''username;alice;owner;bob;key;ABC;'', ''00'']"
  let ?msg = "''Can't verify signature Error in verifying signature crypto/rsa: verification error''"
  have m: "AddKey demo \<in> {Register demo, UpdateUserData demo, AddKey demo, GetPublicKey demo, GetUserData demo}"
    by simp
  have f: "fst (AddKey demo ?st ?args) = Inr (Error ?msg)"
    by (simp add: handler_defs demo_simps)
  then have h: "AddKey demo ?st ?args = (Inr (Error ?msg), snd (AddKey demo ?st ?args))"
    by (simp add: prod_eq_iff)
  have c: "snd (AddKey demo ?st ?args) = ?st"
    by (rule error_response_leaves_state [OF m h])
  from m f c show ?thesis by blast
qed

section \<open>Signature checks\<close>

text \<open>
  C1.  \<open>UpdateUserData\<close> and \<open>AddKey\<close> verify the signature \<open>args[1]\<close> over the payload
  \<open>args[0]\<close> against the \<open>sPublicKey\<close> of the identity stored under the requested
  username.  When that verification fails, the handler returns the error
  \<open>Can't verify signature ...\<close> and leaves the state alone.  Nothing is assumed about any
  other key: the result is the same when the signature verifies against a key carried in
  the payload.
\<close>

theorem signature_checked_against_stored_key:
  assumes "GetState_err X u = None"
      and "stored_Identity X st u = Some i"
      and "VerifySignature X (payload # signature # rest) (Identity.SPublicKey i) = Inr (Some err)"
  shows "(updateUserDataRequest.Username
            (fst (json_Unmarshal_updateUserDataRequest X payload zero_updateUserDataRequest)) = u \<longrightarrow>
          UpdateUserData X st (payload # signature # rest) =
            (Inr (Error (''Can't verify signature '' @ err)), st)) \<and>
         (addKeyRequest.Username (fst (json_Unmarshal_addKeyRequest X payload zero_addKeyRequest)) = u \<longrightarrow>
          AddKey X st (payload # signature # rest) =
            (Inr (Error (''Can't verify signature '' @ err)), st))"
  using assms
  by (auto simp: UpdateUserData_def AddKey_def GetState_def stored_Identity_def Let_def)

theorem signature_checked_against_stored_key_witness:
  "GetState_err demo ''alice'' = None
   \<and> stored_Identity demo [''alice'' \<mapsto> ''username;alice;sPublicKey;Rk;''] ''alice'' =
       Some \<lparr>Identity.Username = ''alice'', Identity.PublicKey = [], Identity.EPublicKey = [],
             Identity.SPublicKey = ''Rk'', Identity.Data = [], Identity.Verified = [],
             Identity.Keys = []\<rparr>
   \<and> VerifySignature demo
         [''username;alice;data;D;sPublicKey;Rkk;'', ''000000000000000000000000000000000000000'']
         ''Rk'' = Inr (Some ''Error in verifying signature crypto/rsa: verification error'')
   \<and> VerifySignature demo
         [''username;alice;data;D;sPublicKey;Rkk;'', ''000000000000000000000000000000000000000'']
         ''Rkk'' = Inr None
   \<and> UpdateUserData demo [''alice'' \<mapsto> ''username;alice;sPublicKey;Rk;'']
         [''username;alice;data;D;sPublicKey;Rkk;'', ''000000000000000000000000000000000000000'']
       = (Inr (Error ''Can't verify signature Error in verifying signature crypto/rsa: verification error''),
          [''alice'' \<mapsto> ''username;alice;sPublicKey;Rk;''])
   \<and> AddKey demo [''alice'' \<mapsto> ''username;alice;sPublicKey;Rk;'']
         [''username;alice;data;D;sPublicKey;Rkk;'', ''000000000000000000000000000000000000000'']
       = (Inr (Error ''Can't verify signature Error in verifying signature crypto/rsa: verification error''),
          [''alice'' \<mapsto> ''username;alice;sPublicKey;Rk;''])"
proof -
  let ?st = "[''alice'' \<mapsto> ''username;alice;sPublicKey;Rk;'']"
  let ?p = "''username;alice;data;D;sPublicKey;Rkk;''"
  let ?s = "''000000000000000000000000000000000000000''"
  let ?i = "\<lparr>Identity.Username = ''alice'', Identity.PublicKey = [], Identity.EPublicKey = [],
             Identity.SPublicKey = ''Rk'', Identity.Data = [], Identity.Verified = [],
             Identity.Keys = []\<rparr>"
  let ?err = "''Error in verifying signature crypto/rsa: verification error''"
  have h1: "GetState_err demo ''alice'' = None"
    by (simp add: demo_def)
  have h2: "stored_Identity demo ?st ''alice'' = Some ?i"
    by (simp add: stored_Identity_def demo_simps)
  have h3: "VerifySignature demo (?p # ?s # []) (Identity.SPublicKey ?i) = Inr (Some ?err)"
    by (simp add: VerifySignature_def demo_simps)
  have other: "VerifySignature demo [?p, ?s] ''Rkk'' = Inr None"
    by (simp add: VerifySignature_def demo_simps)
  have u1: "updateUserDataRequest.Username
       (fst (json_Unmarshal_updateUserDataRequest demo ?p zero_updateUserDataRequest)) = ''alice''"
    by (simp add: demo_simps)
  have u2: "addKeyRequest.Username (fst (json_Unmarshal_addKeyRequest demo ?p zero_addKeyRequest)) = ''alice''"
    by (simp add: demo_simps)
  from signature_checked_against_stored_key [OF h1 h2 h3] u1 u2
  have c: "UpdateUserData demo ?st [?p, ?s] = (Inr (Error (''Can't verify signature '' @ ?err)), ?st)
         \<and> AddKey demo ?st [?p, ?s] = (Inr (Error (''Can't verify signature '' @ ?err)), ?st)"
    by blast
  from h1 h2 h3 other c show ?thesis by simp
qed

section \<open>Register\<close>



section \<open>GetUserData\<close>

lemma keyResult_loop_filter:
  "keyResult_loop owner keys acc =
     (case filter (\<lambda>k. Key.Owner k = owner) keys of [] \<Rightarrow> acc | k # ks \<Rightarrow> Key.Key (last (k # ks)))"
  by (induction keys arbitrary: acc) (auto split: list.splits)

lemma keyResult_loop_last_key_for: "keyResult_loop owner keys [] = last_key_for owner keys"
  by (simp add: keyResult_loop_filter last_key_for_def)

text \<open>
  C4.  For a stored identity and a request \<open>{username, owner}\<close>, \<open>GetUserData\<close> succeeds,
  and the \<open>key\<close> of its response is the key of the last entry of the identity's keys whose
  owner is the requested owner, and the empty string when no entry matches.
\<close>

theorem GetUserData_returns_last_matching_key:
  assumes "req = fst (json_Unmarshal_getUserDataRequest X payload zero_getUserDataRequest)"
      and "GetState_err X (getUserDataRequest.Username req) = None"
      and "stored_Identity X st (getUserDataRequest.Username req) = Some i"
  shows "GetUserData X st (payload # rest) =
           (Inr (Success (json_Marshal_getUserDataResponse X
              \<lparr>getUserDataResponse.PublicKey = Identity.PublicKey i,
               getUserDataResponse.EPublicKey = Identity.EPublicKey i,
               getUserDataResponse.SPublicKey = Identity.SPublicKey i,
               getUserDataResponse.Data = Identity.Data i,
               getUserDataResponse.Key = last_key_for (getUserDataRequest.Owner req) (Identity.Keys i)\<rparr>)),
            st)"
  using assms
  by (auto simp: GetUserData_def GetState_def stored_Identity_def Let_def keyResult_loop_last_key_for)

theorem GetUserData_returns_last_matching_key_witness:
  "GetState_err demo ''alice'' = None
   \<and> stored_Identity demo
        [''alice'' \<mapsto> ''username;alice;data;D;keys;bob%;ABC%;carol%;X%;bob%;DEF%;;''] ''alice''
       = Some \<lparr>Identity.Username = ''alice'', Identity.PublicKey = [], Identity.EPublicKey = [],
               Identity.SPublicKey = [], Identity.Data = ''D'', Identity.Verified = [],
               Identity.Keys = [\<lparr>Key.Owner = ''bob'', Key.Key = ''ABC''\<rparr>,
                 \<lparr>Key.Owner = ''carol'', Key.Key = ''X''\<rparr>, \<lparr>Key.Owner = ''bob'', Key.Key = ''DEF''\<rparr>]\<rparr>
   \<and> GetUserData demo
        [''alice'' \<mapsto> ''username;alice;data;D;keys;bob%;ABC%;carol%;X%;bob%;DEF%;;'']
        [''username;alice;owner;bob;'']
       = (Inr (Success ''publicKey;;ePublicKey;;sPublicKey;;data;D;key;DEF;''),
          [''alice'' \<mapsto> ''username;alice;data;D;keys;bob%;ABC%;carol%;X%;bob%;DEF%;;''])"
proof -
  let ?st = "[''alice'' \<mapsto> ''username;alice;data;D;keys;bob%;ABC%;carol%;X%;bob%;DEF%;;'']"
  let ?p = "''username;alice;owner;bob;''"
  let ?req = "\<lparr>getUserDataRequest.Username = ''alice'', getUserDataRequest.Owner = ''bob''\<rparr>"
  let ?i = "\<lparr>Identity.Username = ''alice'', Identity.PublicKey = [], Identity.EPublicKey = [],
               Identity.SPublicKey = [], Identity.Data = ''D'', Identity.Verified = [],
               Identity.Keys = [\<lparr>Key.Owner = ''bob'', Key.Key = ''ABC''\<rparr>,
                 \<lparr>Key.Owner = ''carol'', Key.Key = ''X''\<rparr>, \<lparr>Key.Owner = ''bob'', Key.Key = ''DEF''\<rparr>]\<rparr>"
  have h1: "?req = fst (json_Unmarshal_getUserDataRequest demo ?p zero_getUserDataRequest)"
    by (simp add: demo_simps)
  have h2: "GetState_err demo (getUserDataRequest.Username ?req) = None"
    by (simp add: demo_def)
  have h3: "stored_Identity demo ?st (getUserDataRequest.Username ?req) = Some ?i"
    by (simp add: stored_Identity_def demo_simps)
  have l: "last_key_for ''bob'' (Identity.Keys ?i) = ''DEF''"
    by (simp add: last_key_for_def)
  from GetUserData_returns_last_matching_key [OF h1 h2 h3, of "[]"] l
  have "GetUserData demo ?st [?p] =
          (Inr (Success (json_Marshal_getUserDataResponse demo
             \<lparr>getUserDataResponse.PublicKey = [], getUserDataResponse.EPublicKey = [],
              getUserDataResponse.SPublicKey = [], getUserDataResponse.Data = ''D'',
              getUserDataResponse.Key = ''DEF''\<rparr>)), ?st)"
    by simp
  moreover have "json_Marshal_getUserDataResponse demo
             \<lparr>getUserDataResponse.PublicKey = [], getUserDataResponse.EPublicKey = [],
              getUserDataResponse.SPublicKey = [], getUserDataResponse.Data = ''D'',
              getUserDataResponse.Key = ''DEF''\<rparr> = ''publicKey;;ePublicKey;;sPublicKey;;data;D;key;DEF;''"
    by (simp add: demo_simps)
  ultimately show ?thesis using h2 h3 by simp
qed

section \<open>UpdateUserData\<close>

lemma UpdateUserData_success:
  assumes "UpdateUserData X st (payload # rest) = (Inr (Success out), st')"
      and "r = fst (json_Unmarshal_updateUserDataRequest X payload zero_updateUserDataRequest)"
  shows "\<exists>i. stored_Identity X st (updateUserDataRequest.Username r) = Some i \<and>
             out = json_Marshal_Identity X (i\<lparr>Identity.Data := updateUserDataRequest.Data r\<rparr>) \<and>
             st' = st(Identity.Username i \<mapsto> out)"
  using assms
  by (auto simp: UpdateUserData_def GetState_def PutState_def stored_Identity_def Let_def
      split: option.splits sum.splits prod.splits)

text \<open>
  C8.  After a successful \<open>UpdateUserData\<close> on a stored identity, the record persisted
  (read back through a codec that round-trips) has the username, publicKey, ePublicKey,
  sPublicKey, verified and keys of the prior record, and the data of the request; no other
  key of the ledger changes.
\<close>

theorem UpdateUserData_changes_data_only:
  assumes "UpdateUserData X st (payload # rest) = (Inr (Success out), st')"
      and "r = fst (json_Unmarshal_updateUserDataRequest X payload zero_updateUserDataRequest)"
      and "codec_roundtrip X"
  shows "\<exists>i i'. stored_Identity X st (updateUserDataRequest.Username r) = Some i \<and>
           stored_Identity X st' (Identity.Username i) = Some i' \<and>
           Identity.Username i' = Identity.Username i \<and>
           Identity.PublicKey i' = Identity.PublicKey i \<and>
           Identity.EPublicKey i' = Identity.EPublicKey i \<and>
           Identity.SPublicKey i' = Identity.SPublicKey i \<and>
           Identity.Verified i' = Identity.Verified i \<and>
           Identity.Keys i' = Identity.Keys i \<and>
           Identity.Data i' = updateUserDataRequest.Data r \<and>
           (\<forall>u. u \<noteq> Identity.Username i \<longrightarrow> st' u = st u)"
proof -
  from UpdateUserData_success [OF assms(1,2)] obtain i where
    i: "stored_Identity X st (updateUserDataRequest.Username r) = Some i"
    and out: "out = json_Marshal_Identity X (i\<lparr>Identity.Data := updateUserDataRequest.Data r\<rparr>)"
    and st': "st' = st(Identity.Username i \<mapsto> out)"
    by blast
  have "stored_Identity X st' (Identity.Username i) = Some (i\<lparr>Identity.Data := updateUserDataRequest.Data r\<rparr>)"
    using assms(3) by (simp add: st' out stored_Identity_def codec_roundtrip_def)
  with i st' show ?thesis by auto
qed

theorem UpdateUserData_changes_data_only_witness:
  "UpdateUserData demo [''alice'' \<mapsto> ''username;alice;sPublicKey;Rk;data;old;keys;bob%;ABC%;;'']
      [''username;alice;data;D;'', ''00000000000000000000000'']
     = (Inr (Success ''username;alice;publicKey;;ePublicKey;;sPublicKey;Rk;data;D;verified;;keys;bob%;ABC%;;''),
        [''alice'' \<mapsto> ''username;alice;publicKey;;ePublicKey;;sPublicKey;Rk;data;D;verified;;keys;bob%;ABC%;;''])
   \<and> codec_roundtrip demo
   \<and> (\<exists>i i'. stored_Identity demo
                 [''alice'' \<mapsto> ''username;alice;sPublicKey;Rk;data;old;keys;bob%;ABC%;;''] ''alice'' = Some i \<and>
           stored_Identity demo
             [''alice'' \<mapsto> ''username;alice;publicKey;;ePublicKey;;sPublicKey;Rk;data;D;verified;;keys;bob%;ABC%;;'']
             (Identity.Username i) = Some i' \<and>
           Identity.Username i' = Identity.Username i \<and>
           Identity.PublicKey i' = Identity.PublicKey i \<and>
           Identity.EPublicKey i' = Identity.EPublicKey i \<and>
           Identity.SPublicKey i' = Identity.SPublicKey i \<and>
           Identity.Verified i' = Identity.Verified i \<and>
           Identity.Keys i' = Identity.Keys i \<and>
           Identity.Data i' = ''D'')"
proof -
  let ?st = "[''alice'' \<mapsto> ''username;alice;sPublicKey;Rk;data;old;keys;bob%;ABC%;;'']"
  let ?p = "''username;alice;data;D;''"
  let ?out = "''username;alice;publicKey;;ePublicKey;;sPublicKey;Rk;data;D;verified;;keys;bob%;ABC%;;''"
  let ?r = "\<lparr>updateUserDataRequest.Username = ''alice'', updateUserDataRequest.Data = ''D''\<rparr>"
  have h1: "UpdateUserData demo ?st (?p # [''00000000000000000000000'']) =
      (Inr (Success ?out), [''alice'' \<mapsto> ?out])"
    by (simp add: handler_defs demo_simps)
  have h2: "?r = fst (json_Unmarshal_updateUserDataRequest demo ?p zero_updateUserDataRequest)"
    by (simp add: demo_simps)
  from UpdateUserData_changes_data_only [OF h1 h2 codec_roundtrip_demo] h1 codec_roundtrip_demo
  show ?thesis by simp blast
qed

section \<open>The keys of a stored identity\<close>

lemma stored_Identity_update:
  "codec_roundtrip X \<Longrightarrow>
   stored_Identity X (st(u \<mapsto> json_Marshal_Identity X i)) v =
     (if v = u then Some i else stored_Identity X st v)"
  by (simp add: stored_Identity_def codec_roundtrip_def)

lemma Register_writes:
  assumes "Register X st args = (r, st')"
  shows "st' = st \<or>
    (\<exists>i. st' = st(Identity.Username i \<mapsto> json_Marshal_Identity X i) \<and> Identity.Keys i = [])"
proof (cases args)
  case Nil
  with assms show ?thesis by (simp add: Register_def)
next
  case (Cons payload rest)
  define i where "i = (fst (json_Unmarshal_Identity X payload zero_Identity))\<lparr>Identity.Keys := []\<rparr>"
  show ?thesis
  proof (cases "PutState_err X (Identity.Username i) (json_Marshal_Identity X i)")
    case None
    with assms Cons have "st' = st(Identity.Username i \<mapsto> json_Marshal_Identity X i)"
      by (simp add: Register_def PutState_def Let_def i_def)
    moreover have "Identity.Keys i = []" by (simp add: i_def)
    ultimately show ?thesis by blast
  next
    case (Some err)
    with assms Cons show ?thesis
      by (simp add: Register_def PutState_def Let_def i_def)
  qed
qed

lemma UpdateUserData_writes:
  assumes "UpdateUserData X st args = (r, st')"
  shows "st' = st \<or> (\<exists>u i i'. stored_Identity X st u = Some i \<and>
      st' = st(Identity.Username i \<mapsto> json_Marshal_Identity X i') \<and>
      Identity.Username i' = Identity.Username i \<and> prefix (Identity.Keys i) (Identity.Keys i'))"
proof (cases "\<exists>out. r = Inr (Success out)")
  case False
  with assms show ?thesis
    by (auto simp: UpdateUserData_def GetState_def PutState_def Let_def
        split: list.splits option.splits sum.splits)
next
  case True
  then obtain out where r: "r = Inr (Success out)" by blast
  with assms obtain payload rest where args: "args = payload # rest"
    by (cases args) (auto simp: UpdateUserData_def)
  define q where "q = fst (json_Unmarshal_updateUserDataRequest X payload zero_updateUserDataRequest)"
  from assms r args obtain i where
    "stored_Identity X st (updateUserDataRequest.Username q) = Some i"
    "st' = st(Identity.Username i \<mapsto>
       json_Marshal_Identity X (i\<lparr>Identity.Data := updateUserDataRequest.Data q\<rparr>))"
    by (auto simp: UpdateUserData_def GetState_def PutState_def stored_Identity_def Let_def q_def
        split: option.splits sum.splits)
  moreover have "Identity.Username (i\<lparr>Identity.Data := updateUserDataRequest.Data q\<rparr>) = Identity.Username i"
    "prefix (Identity.Keys i) (Identity.Keys (i\<lparr>Identity.Data := updateUserDataRequest.Data q\<rparr>))"
    by simp_all
  ultimately show ?thesis by blast
qed

lemma AddKey_writes:
  assumes "AddKey X st args = (r, st')"
  shows "st' = st \<or> (\<exists>u i i'. stored_Identity X st u = Some i \<and>
      st' = st(Identity.Username i \<mapsto> json_Marshal_Identity X i') \<and>
      Identity.Username i' = Identity.Username i \<and> prefix (Identity.Keys i) (Identity.Keys i'))"
proof (cases "\<exists>out. r = Inr (Success out)")
  case False
  with assms show ?thesis
    by (auto simp: AddKey_def GetState_def PutState_def Let_def
        split: list.splits option.splits sum.splits)
next
  case True
  then obtain out where r: "r = Inr (Success out)" by blast
  with assms obtain payload rest where args: "args = payload # rest"
    by (cases args) (auto simp: AddKey_def)
  define q where "q = fst (json_Unmarshal_addKeyRequest X payload zero_addKeyRequest)"
  define key where "key = \<lparr>Key.Owner = addKeyRequest.Owner q, Key.Key = addKeyRequest.Key q\<rparr>"
  from assms r args obtain i where
    "stored_Identity X st (addKeyRequest.Username q) = Some i"
    "st' = st(Identity.Username i \<mapsto>
       json_Marshal_Identity X (i\<lparr>Identity.Keys := Identity.Keys i @ [key]\<rparr>))"
    by (auto simp: AddKey_def GetState_def PutState_def stored_Identity_def Let_def q_def key_def
        split: option.splits sum.splits)
  moreover have "Identity.Username (i\<lparr>Identity.Keys := Identity.Keys i @ [key]\<rparr>) = Identity.Username i"
    "prefix (Identity.Keys i) (Identity.Keys (i\<lparr>Identity.Keys := Identity.Keys i @ [key]\<rparr>))"
    by simp_all
  ultimately show ?thesis by blast
qed

lemma Invoke_writes:
  assumes "Invoke X st function args = (r, st')" and "function \<noteq> ''Register''"
  shows "st' = st \<or> (\<exists>u i i'. stored_Identity X st u = Some i \<and>
      st' = st(Identity.Username i \<mapsto> json_Marshal_Identity X i') \<and>
      Identity.Username i' = Identity.Username i \<and> prefix (Identity.Keys i) (Identity.Keys i'))"
proof -
  consider "UpdateUserData X st args = (r, st')" | "AddKey X st args = (r, st')"
    | "GetPublicKey X st args = (r, st')" | "GetUserData X st args = (r, st')"
    | "st' = st"
    using assms by (auto simp: Invoke_def split: if_splits list.splits)
  then show ?thesis
  proof cases
    case 1 then show ?thesis by (rule UpdateUserData_writes)
  next
    case 2 then show ?thesis by (rule AddKey_writes)
  next
    case 3 then show ?thesis by (simp add: GetPublicKey_error)
  next
    case 4 then show ?thesis by (simp add: GetUserData_error)
  next
    case 5 then show ?thesis by simp
  qed
qed

lemma Invoke_Register_writes:
  assumes "Invoke X st ''Register'' args = (r, st')"
  shows "st' = st \<or>
    (\<exists>i. st' = st(Identity.Username i \<mapsto> json_Marshal_Identity X i) \<and> Identity.Keys i = [])"
  using assms by (simp add: Invoke_def Register_writes)

lemma keyed_by_username_Invoke:
  assumes rt: "codec_roundtrip X" and k: "keyed_by_username X st"
      and inv: "Invoke X st function args = (r, st')"
  shows "keyed_by_username X st'"
proof (cases "function = ''Register''")
  case True
  with inv Invoke_Register_writes have "st' = st \<or>
    (\<exists>i. st' = st(Identity.Username i \<mapsto> json_Marshal_Identity X i) \<and> Identity.Keys i = [])"
    by simp
  then show ?thesis
    using k rt by (auto simp: keyed_by_username_def stored_Identity_update split: if_splits)
next
  case False
  from Invoke_writes [OF inv False] show ?thesis
    using k rt by (auto simp: keyed_by_username_def stored_Identity_update split: if_splits)
qed

lemma reachable_keyed_by_username:
  assumes "codec_roundtrip X" and "reachable X st"
  shows "keyed_by_username X st"
  using assms(2)
proof (induction rule: reachable.induct)
  case reachable_empty
  show ?case by (simp add: keyed_by_username_def stored_Identity_def)
next
  case (reachable_Invoke st f args r st')
  then show ?case using keyed_by_username_Invoke [OF assms(1)] by blast
qed

lemma Register_writes_payload:
  assumes "Register X st args = (r, st')"
  shows "st' = st \<or>
    (\<exists>payload rest. args = payload # rest \<and>
       st' = st(Identity.Username (fst (json_Unmarshal_Identity X payload zero_Identity)) \<mapsto>
         json_Marshal_Identity X
           ((fst (json_Unmarshal_Identity X payload zero_Identity))\<lparr>Identity.Keys := []\<rparr>)))"
proof (cases args)
  case Nil
  with assms show ?thesis by (simp add: Register_def)
next
  case (Cons payload rest)
  define i where "i = fst (json_Unmarshal_Identity X payload zero_Identity)"
  show ?thesis
  proof (cases "PutState_err X (Identity.Username i)
      (json_Marshal_Identity X (i\<lparr>Identity.Keys := []\<rparr>))")
    case None
    with assms Cons have "st' = st(Identity.Username i \<mapsto>
        json_Marshal_Identity X (i\<lparr>Identity.Keys := []\<rparr>))"
      by (simp add: Register_def PutState_def Let_def i_def)
    with Cons show ?thesis unfolding i_def by blast
  next
    case (Some err)
    with assms Cons show ?thesis
      by (simp add: Register_def PutState_def Let_def i_def)
  qed
qed

text \<open>
  C5, as amended.  From a reachable ledger state, with a codec that round-trips, after any
  invocation the keys stored for a username have the keys stored before as a prefix, or
  else the invocation was a \<open>Register\<close>, the username is the one its payload registers,
  and the keys stored for it are empty.  So the keys never shrink through
  \<open>UpdateUserData\<close>, \<open>AddKey\<close>, \<open>GetPublicKey\<close> and \<open>GetUserData\<close>, and \<open>Register\<close>
  shrinks no keys but those of the username it registers.
\<close>

theorem keys_grow_except_for_registered_username:
  assumes "codec_roundtrip X" and "reachable X st"
      and "Invoke X st function args = (r, st')"
  shows "prefix (stored_keys X st u) (stored_keys X st' u) \<or>
         (function = ''Register'' \<and> stored_keys X st' u = [] \<and>
          (\<exists>payload rest. args = payload # rest \<and>
             u = Identity.Username (fst (json_Unmarshal_Identity X payload zero_Identity))))"
proof (cases "function = ''Register''")
  case True
  with assms(3) have "Register X st args = (r, st')"
    by (simp add: Invoke_def)
  from Register_writes_payload [OF this] show ?thesis
  proof
    assume "st' = st" then show ?thesis by simp
  next
    assume "\<exists>payload rest. args = payload # rest \<and>
       st' = st(Identity.Username (fst (json_Unmarshal_Identity X payload zero_Identity)) \<mapsto>
         json_Marshal_Identity X
           ((fst (json_Unmarshal_Identity X payload zero_Identity))\<lparr>Identity.Keys := []\<rparr>))"
    then obtain payload rest where a: "args = payload # rest"
      and st': "st' = st(Identity.Username (fst (json_Unmarshal_Identity X payload zero_Identity)) \<mapsto>
         json_Marshal_Identity X
           ((fst (json_Unmarshal_Identity X payload zero_Identity))\<lparr>Identity.Keys := []\<rparr>))"
      by blast
    show ?thesis
    proof (cases "u = Identity.Username (fst (json_Unmarshal_Identity X payload zero_Identity))")
      case False
      with assms(1) have "stored_keys X st' u = stored_keys X st u"
        by (simp add: stored_keys_def st' stored_Identity_update)
      then show ?thesis by simp
    next
      case u: True
      with assms(1) have "stored_keys X st' u = []"
        by (simp add: stored_keys_def st' stored_Identity_update)
      with True a u show ?thesis by blast
    qed
  qed
next
  case False
  have k: "keyed_by_username X st"
    using assms(1,2) by (rule reachable_keyed_by_username)
  from Invoke_writes [OF assms(3) False]
  have "prefix (stored_keys X st u) (stored_keys X st' u)"
  proof
    assume "st' = st" then show ?thesis by simp
  next
    assume "\<exists>v i i'. stored_Identity X st v = Some i \<and>
      st' = st(Identity.Username i \<mapsto> json_Marshal_Identity X i') \<and>
      Identity.Username i' = Identity.Username i \<and> prefix (Identity.Keys i) (Identity.Keys i')"
    then obtain v i i' where s: "stored_Identity X st v = Some i"
      and st': "st' = st(Identity.Username i \<mapsto> json_Marshal_Identity X i')"
      and p: "prefix (Identity.Keys i) (Identity.Keys i')"
      by blast
    from k s have v: "Identity.Username i = v" by (simp add: keyed_by_username_def)
    show ?thesis
      using assms(1) s p by (simp add: stored_keys_def st' stored_Identity_update v)
  qed
  then show ?thesis by simp
qed

theorem keys_grow_except_for_registered_username_witness:
  "codec_roundtrip demo
   \<and> reachable demo
        [''alice'' \<mapsto> ''username;alice;publicKey;;ePublicKey;;sPublicKey;Rk;data;;verified;;keys;;'']
   \<and> Invoke demo
        [''alice'' \<mapsto> ''username;alice;publicKey;;ePublicKey;;sPublicKey;Rk;data;;verified;;keys;;'']
        ''AddKey'' [''username;alice;owner;bob;key;ABC;'', ''0123456789abcdef0123456789abcdef01'']
       = (Inr (Success ''owner;bob;key;ABC;''),
          [''alice'' \<mapsto>
             ''username;alice;publicKey;;ePublicKey;;sPublicKey;Rk;data;;verified;;keys;bob%;ABC%;;''])
   \<and> stored_keys demo
        [''alice'' \<mapsto> ''username;alice;publicKey;;ePublicKey;;sPublicKey;Rk;data;;verified;;keys;bob%;ABC%;;'']
        ''alice'' = [\<lparr>Key.Owner = ''bob'', Key.Key = ''ABC''\<rparr>]
   \<and> prefix
        (stored_keys demo
           [''alice'' \<mapsto> ''username;alice;publicKey;;ePublicKey;;sPublicKey;Rk;data;;verified;;keys;;'']
           ''alice'')
        (stored_keys demo
           [''alice'' \<mapsto> ''username;alice;publicKey;;ePublicKey;;sPublicKey;Rk;data;;verified;;keys;bob%;ABC%;;'']
           ''alice'')"
proof -
  let ?st0 = "[''alice'' \<mapsto> ''username;alice;publicKey;;ePublicKey;;sPublicKey;Rk;data;;verified;;keys;;'']"
  let ?st1 = "[''alice'' \<mapsto>
     ''username;alice;publicKey;;ePublicKey;;sPublicKey;Rk;data;;verified;;keys;bob%;ABC%;;'']"
  have r0: "Invoke demo Map.empty ''Register'' [''username;alice;sPublicKey;Rk;''] =
      (Inr (Success ''username;alice;publicKey;;ePublicKey;;sPublicKey;Rk;data;;verified;;keys;;''), ?st0)"
    by (simp add: handler_defs demo_simps)
  have h2: "reachable demo ?st0"
    by (rule reachable_Invoke [OF reachable_empty r0])
  have h3: "Invoke demo ?st0 ''AddKey''
      [''username;alice;owner;bob;key;ABC;'', ''0123456789abcdef0123456789abcdef01'']
      = (Inr (Success ''owner;bob;key;ABC;''), ?st1)"
    by (simp add: handler_defs demo_simps)
  have k: "stored_keys demo ?st1 ''alice'' = [\<lparr>Key.Owner = ''bob'', Key.Key = ''ABC''\<rparr>]"
    by (simp add: stored_keys_def stored_Identity_def demo_simps)
  from keys_grow_except_for_registered_username [OF codec_roundtrip_demo h2 h3, of "''alice''"] k
  have "prefix (stored_keys demo ?st0 ''alice'') (stored_keys demo ?st1 ''alice'')"
    by simp
  with codec_roundtrip_demo h2 h3 k show ?thesis by blast
qed

text \<open>
  As the claim is worded, for every operation, it fails on \<open>Register\<close>: registering
  \<open>alice\<close>, adding a key for \<open>bob\<close> and registering \<open>alice\<close> again leaves her with no
  keys, and the one key she had is not a prefix of the empty sequence.
\<close>

theorem keys_shrink_on_Register_counterexample:
  "\<not> prefix
      (stored_keys demo
         (snd (Invoke demo (snd (Invoke demo Map.empty ''Register'' [''username;alice;sPublicKey;Rk;'']))
            ''AddKey'' [''username;alice;owner;bob;key;ABC;'', ''0123456789abcdef0123456789abcdef01'']))
         ''alice'')
      (stored_keys demo
         (snd (Invoke demo
            (snd (Invoke demo (snd (Invoke demo Map.empty ''Register'' [''username;alice;sPublicKey;Rk;'']))
               ''AddKey'' [''username;alice;owner;bob;key;ABC;'', ''0123456789abcdef0123456789abcdef01'']))
            ''Register'' [''username;alice;sPublicKey;Rk;'']))
         ''alice'')"
  by (simp add: handler_defs demo_simps stored_keys_def stored_Identity_def)

section \<open>Errors of json.Unmarshal\<close>

lemma without_VerifySignature:
  "VerifySignature (without_Unmarshal_errors X) = VerifySignature X"
  by (rule ext)+
    (simp add: VerifySignature_def without_Unmarshal_errors_def split_beta
      cong: list.case_cong option.case_cong sum.case_cong pkix_key.case_cong)

lemma without_fields:
  "fst (json_Unmarshal_Identity (without_Unmarshal_errors X) b t) = fst (json_Unmarshal_Identity X b t)"
  "fst (json_Unmarshal_updateUserDataRequest (without_Unmarshal_errors X) b t2) =
     fst (json_Unmarshal_updateUserDataRequest X b t2)"
  "fst (json_Unmarshal_addKeyRequest (without_Unmarshal_errors X) b t3) =
     fst (json_Unmarshal_addKeyRequest X b t3)"
  "fst (json_Unmarshal_getPublicKeyRequest (without_Unmarshal_errors X) b t4) =
     fst (json_Unmarshal_getPublicKeyRequest X b t4)"
  "fst (json_Unmarshal_getUserDataRequest (without_Unmarshal_errors X) b t5) =
     fst (json_Unmarshal_getUserDataRequest X b t5)"
  "json_Marshal_Identity (without_Unmarshal_errors X) = json_Marshal_Identity X"
  "json_Marshal_addKeyResponse (without_Unmarshal_errors X) = json_Marshal_addKeyResponse X"
  "json_Marshal_getPublicKeyResponse (without_Unmarshal_errors X) = json_Marshal_getPublicKeyResponse X"
  "json_Marshal_getUserDataResponse (without_Unmarshal_errors X) = json_Marshal_getUserDataResponse X"
  "GetState (without_Unmarshal_errors X) = GetState X"
  "PutState (without_Unmarshal_errors X) = PutState X"
  by (simp_all add: without_Unmarshal_errors_def GetState_def PutState_def fun_eq_iff)

lemma without_handlers:
  "Register (without_Unmarshal_errors X) = Register X"
  "UpdateUserData (without_Unmarshal_errors X) = UpdateUserData X"
  "AddKey (without_Unmarshal_errors X) = AddKey X"
  "GetPublicKey (without_Unmarshal_errors X) = GetPublicKey X"
  "GetUserData (without_Unmarshal_errors X) = GetUserData X"
  by (simp_all add: fun_eq_iff Register_def UpdateUserData_def AddKey_def GetPublicKey_def
      GetUserData_def without_fields without_VerifySignature Let_def split_beta
      cong: list.case_cong option.case_cong sum.case_cong)

text \<open>
  C9, as amended.  No handler looks at the error of \<open>json.Unmarshal\<close>: each behaves the
  same when every such error is replaced by \<open>nil\<close>.  For a payload that leaves the request
  fields at their zero values, whether the decoder returns an error (the input is not well
  formed) or not (the input omits the fields), processing goes on with those values, in
  every state.  \<open>Register\<close> writes the zero identity under the empty username: it succeeds
  and stores the record when the store accepts the write, and returns the store's error,
  storing nothing, when it does not.  The other four handlers look the empty username up:
  \<open>UpdateUserData\<close> sets the data of the record stored there to the empty string,
  \<open>AddKey\<close> appends a key with empty owner and empty key to it, \<open>GetPublicKey\<close> and
  \<open>GetUserData\<close> (for the empty owner) answer from it, each after the checks it makes
  for any other request.
\<close>

theorem malformed_payload_processed_with_zero_values:
  assumes "json_Unmarshal_Identity X payload zero_Identity = (zero_Identity, e1)"
      and "json_Unmarshal_updateUserDataRequest X payload zero_updateUserDataRequest =
             (zero_updateUserDataRequest, e2)"
      and "json_Unmarshal_addKeyRequest X payload zero_addKeyRequest = (zero_addKeyRequest, e3)"
      and "json_Unmarshal_getPublicKeyRequest X payload zero_getPublicKeyRequest =
             (zero_getPublicKeyRequest, e4)"
      and "json_Unmarshal_getUserDataRequest X payload zero_getUserDataRequest =
             (zero_getUserDataRequest, e5)"
  shows "Register (without_Unmarshal_errors X) = Register X \<and>
         UpdateUserData (without_Unmarshal_errors X) = UpdateUserData X \<and>
         AddKey (without_Unmarshal_errors X) = AddKey X \<and>
         GetPublicKey (without_Unmarshal_errors X) = GetPublicKey X \<and>
         GetUserData (without_Unmarshal_errors X) = GetUserData X \<and>
         Register X st (payload # rest) =
           (case PutState_err X [] (json_Marshal_Identity X zero_Identity) of
              Some err \<Rightarrow> (Inr (Error err), st)
            | None \<Rightarrow> (Inr (Success (json_Marshal_Identity X zero_Identity)),
                       st([] \<mapsto> json_Marshal_Identity X zero_Identity))) \<and>
         UpdateUserData X st (payload # rest) =
           (case GetState_err X [] of
              Some err \<Rightarrow> (Inr (Error ''Failed to get state''), st)
            | None \<Rightarrow>
               (case stored_Identity X st [] of
                  None \<Rightarrow> (Inr (Error ''Username not found''), st)
                | Some i \<Rightarrow>
                   (case VerifySignature X (payload # rest) (Identity.SPublicKey i) of
                      Inl p \<Rightarrow> (Inl p, st)
                    | Inr (Some err) \<Rightarrow> (Inr (Error (''Can't verify signature '' @ err)), st)
                    | Inr None \<Rightarrow>
                       (case PutState_err X (Identity.Username i)
                               (json_Marshal_Identity X (i\<lparr>Identity.Data := []\<rparr>)) of
                          Some err \<Rightarrow> (Inr (Error err), st)
                        | None \<Rightarrow>
                           (Inr (Success (json_Marshal_Identity X (i\<lparr>Identity.Data := []\<rparr>))),
                            st(Identity.Username i \<mapsto>
                                 json_Marshal_Identity X (i\<lparr>Identity.Data := []\<rparr>))))))) \<and>
         AddKey X st (payload # rest) =
           (case GetState_err X [] of
              Some err \<Rightarrow> (Inr (Error ''Failed to get state''), st)
            | None \<Rightarrow>
               (case stored_Identity X st [] of
                  None \<Rightarrow> (Inr (Error ''Username not found''), st)
                | Some i \<Rightarrow>
                   (case VerifySignature X (payload # rest) (Identity.SPublicKey i) of
                      Inl p \<Rightarrow> (Inl p, st)
                    | Inr (Some err) \<Rightarrow> (Inr (Error (''Can't verify signature '' @ err)), st)
                    | Inr None \<Rightarrow>
                       (case PutState_err X (Identity.Username i)
                               (json_Marshal_Identity X
                                  (i\<lparr>Identity.Keys := Identity.Keys i @ [\<lparr>Key.Owner = [], Key.Key = []\<rparr>]\<rparr>)) of
                          Some err \<Rightarrow> (Inr (Error err), st)
                        | None \<Rightarrow>
                           (Inr (Success (json_Marshal_addKeyResponse X
                                   \<lparr>addKeyResponse.Owner = [], addKeyResponse.Key = []\<rparr>)),
                            st(Identity.Username i \<mapsto>
                                 json_Marshal_Identity X
                                   (i\<lparr>Identity.Keys := Identity.Keys i @ [\<lparr>Key.Owner = [], Key.Key = []\<rparr>]\<rparr>))))))) \<and>
         GetPublicKey X st (payload # rest) =
           (case GetState_err X [] of
              Some err \<Rightarrow> (Inr (Error ''Failed to get state''), st)
            | None \<Rightarrow>
               (case stored_Identity X st [] of
                  None \<Rightarrow> (Inr (Error ''Username not found''), st)
                | Some i \<Rightarrow>
                   (Inr (Success (json_Marshal_getPublicKeyResponse X
                      \<lparr>getPublicKeyResponse.PublicKey = Identity.PublicKey i,
                       getPublicKeyResponse.EPublicKey = Identity.EPublicKey i\<rparr>)), st))) \<and>
         GetUserData X st (payload # rest) =
           (case GetState_err X [] of
              Some err \<Rightarrow> (Inr (Error ''Failed to get state''), st)
            | None \<Rightarrow>
               (case stored_Identity X st [] of
                  None \<Rightarrow> (Inr (Error ''Username not found''), st)
                | Some i \<Rightarrow>
                   (Inr (Success (json_Marshal_getUserDataResponse X
                      \<lparr>getUserDataResponse.PublicKey = Identity.PublicKey i,
                       getUserDataResponse.EPublicKey = Identity.EPublicKey i,
                       getUserDataResponse.SPublicKey = Identity.SPublicKey i,
                       getUserDataResponse.Data = Identity.Data i,
                       getUserDataResponse.Key = last_key_for [] (Identity.Keys i)\<rparr>)), st)))"
proof -
  have z: "zero_Identity\<lparr>Identity.Keys := []\<rparr> = zero_Identity"
    "Identity.Username zero_Identity = []"
    "updateUserDataRequest.Username zero_updateUserDataRequest = []"
    "updateUserDataRequest.Data zero_updateUserDataRequest = []"
    "addKeyRequest.Username zero_addKeyRequest = []"
    "addKeyRequest.Owner zero_addKeyRequest = []"
    "addKeyRequest.Key zero_addKeyRequest = []"
    "getPublicKeyRequest.Username zero_getPublicKeyRequest = []"
    "getUserDataRequest.Username zero_getUserDataRequest = []"
    "getUserDataRequest.Owner zero_getUserDataRequest = []"
    by (simp_all add: zero_Identity_def zero_updateUserDataRequest_def zero_addKeyRequest_def
        zero_getPublicKeyRequest_def zero_getUserDataRequest_def)
  show ?thesis
    using assms
    apply (intro conjI)
    subgoal by (simp add: without_handlers)
    subgoal by (simp add: without_handlers)
    subgoal by (simp add: without_handlers)
    subgoal by (simp add: without_handlers)
    subgoal by (simp add: without_handlers)
    subgoal by (simp add: Register_def PutState_def Let_def z split: option.splits)
    subgoal
      by (simp add: UpdateUserData_def GetState_def PutState_def stored_Identity_def Let_def z
          split: option.splits sum.splits)
    subgoal
      by (simp add: AddKey_def GetState_def PutState_def stored_Identity_def Let_def z
          split: option.splits sum.splits)
    subgoal
      by (simp add: GetPublicKey_def GetState_def stored_Identity_def Let_def z
          split: option.splits)
    subgoal
      by (simp add: GetUserData_def GetState_def stored_Identity_def Let_def z
          keyResult_loop_last_key_for split: option.splits)
    done
qed

theorem malformed_payload_processed_with_zero_values_witness:
  "json_Unmarshal_Identity demo ''{not json'' zero_Identity = (zero_Identity, Some ''invalid character'')
   \<and> json_Unmarshal_updateUserDataRequest demo ''{not json'' zero_updateUserDataRequest =
        (zero_updateUserDataRequest, Some ''invalid character'')
   \<and> json_Unmarshal_addKeyRequest demo ''{not json'' zero_addKeyRequest =
        (zero_addKeyRequest, Some ''invalid character'')
   \<and> json_Unmarshal_getPublicKeyRequest demo ''{not json'' zero_getPublicKeyRequest =
        (zero_getPublicKeyRequest, Some ''invalid character'')
   \<and> json_Unmarshal_getUserDataRequest demo ''{not json'' zero_getUserDataRequest =
        (zero_getUserDataRequest, Some ''invalid character'')
   \<and> Register demo [[] \<mapsto> ''sPublicKey;Rk;data;old;''] [''{not json'', ''0123456789''] =
        (Inr (Success ''username;;publicKey;;ePublicKey;;sPublicKey;;data;;verified;;keys;;''),
         [[] \<mapsto> ''username;;publicKey;;ePublicKey;;sPublicKey;;data;;verified;;keys;;''])
   \<and> UpdateUserData demo [[] \<mapsto> ''sPublicKey;Rk;data;old;''] [''{not json'', ''0123456789''] =
        (Inr (Success ''username;;publicKey;;ePublicKey;;sPublicKey;Rk;data;;verified;;keys;;''),
         [[] \<mapsto> ''username;;publicKey;;ePublicKey;;sPublicKey;Rk;data;;verified;;keys;;''])
   \<and> AddKey demo [[] \<mapsto> ''sPublicKey;Rk;data;old;''] [''{not json'', ''0123456789''] =
        (Inr (Success ''owner;;key;;''),
         [[] \<mapsto> ''username;;publicKey;;ePublicKey;;sPublicKey;Rk;data;old;verified;;keys;%;%;;''])
   \<and> GetPublicKey demo [[] \<mapsto> ''sPublicKey;Rk;data;old;''] [''{not json'', ''0123456789''] =
        (Inr (Success ''publicKey;;ePublicKey;;''), [[] \<mapsto> ''sPublicKey;Rk;data;old;''])
   \<and> GetUserData demo [[] \<mapsto> ''sPublicKey;Rk;data;old;''] [''{not json'', ''0123456789''] =
        (Inr (Success ''publicKey;;ePublicKey;;sPublicKey;Rk;data;old;key;;''),
         [[] \<mapsto> ''sPublicKey;Rk;data;old;''])"
proof -
  let ?p = "''{not json''"
  let ?st = "[[] \<mapsto> ''sPublicKey;Rk;data;old;'']"
  have h1: "json_Unmarshal_Identity demo ?p zero_Identity = (zero_Identity, Some ''invalid character'')"
    by (simp add: demo_simps)
  have h2: "json_Unmarshal_updateUserDataRequest demo ?p zero_updateUserDataRequest =
        (zero_updateUserDataRequest, Some ''invalid character'')"
    by (simp add: demo_simps)
  have h3: "json_Unmarshal_addKeyRequest demo ?p zero_addKeyRequest =
        (zero_addKeyRequest, Some ''invalid character'')"
    by (simp add: demo_simps)
  have h4: "json_Unmarshal_getPublicKeyRequest demo ?p zero_getPublicKeyRequest =
        (zero_getPublicKeyRequest, Some ''invalid character'')"
    by (simp add: demo_simps)
  have h5: "json_Unmarshal_getUserDataRequest demo ?p zero_getUserDataRequest =
        (zero_getUserDataRequest, Some ''invalid character'')"
    by (simp add: demo_simps)
  have s: "stored_Identity demo ?st [] =
      Some \<lparr>Identity.Username = [], Identity.PublicKey = [], Identity.EPublicKey = [],
            Identity.SPublicKey = ''Rk'', Identity.Data = ''old'', Identity.Verified = [],
            Identity.Keys = []\<rparr>"
    by (simp add: stored_Identity_def demo_simps)
  have v: "VerifySignature demo [?p, ''0123456789''] ''Rk'' = Inr None"
    by (simp add: VerifySignature_def demo_simps)
  have e: "GetState_err demo [] = None" "\<And>k b. PutState_err demo k b = None"
    by (simp_all add: demo_def)
  have m: "json_Marshal_Identity demo = demo_Marshal_Identity"
    "json_Marshal_addKeyResponse demo = demo_Marshal_addKeyResponse"
    "json_Marshal_getPublicKeyResponse demo = demo_Marshal_getPublicKeyResponse"
    "json_Marshal_getUserDataResponse demo = demo_Marshal_getUserDataResponse"
    by (simp_all add: demo_def)
  from malformed_payload_processed_with_zero_values [OF h1 h2 h3 h4 h5, of ?st "[''0123456789'']"]
  have "Register demo ?st [?p, ''0123456789''] =
        (Inr (Success ''username;;publicKey;;ePublicKey;;sPublicKey;;data;;verified;;keys;;''),
         [[] \<mapsto> ''username;;publicKey;;ePublicKey;;sPublicKey;;data;;verified;;keys;;''])"
    and "UpdateUserData demo ?st [?p, ''0123456789''] =
        (Inr (Success ''username;;publicKey;;ePublicKey;;sPublicKey;Rk;data;;verified;;keys;;''),
         [[] \<mapsto> ''username;;publicKey;;ePublicKey;;sPublicKey;Rk;data;;verified;;keys;;''])"
    and "AddKey demo ?st [?p, ''0123456789''] =
        (Inr (Success ''owner;;key;;''),
         [[] \<mapsto> ''username;;publicKey;;ePublicKey;;sPublicKey;Rk;data;old;verified;;keys;%;%;;''])"
    and "GetPublicKey demo ?st [?p, ''0123456789''] =
        (Inr (Success ''publicKey;;ePublicKey;;''), ?st)"
    and "GetUserData demo ?st [?p, ''0123456789''] =
        (Inr (Success ''publicKey;;ePublicKey;;sPublicKey;Rk;data;old;key;;''), ?st)"
    by (simp_all add: s v e m last_key_for_def zero_Identity_def demo_Marshal_Identity_def
        demo_Marshal_addKeyResponse_def demo_Marshal_getPublicKeyResponse_def
        demo_Marshal_getUserDataResponse_def enc_tokens_def)
  with h1 h2 h3 h4 h5 show ?thesis by blast
qed

text \<open>
  As the claim is worded, \<open>Register\<close> with an unparseable payload always succeeds and
  stores a record.  It does so only when the store accepts a write under the empty
  username: over a store that refuses the empty key it returns the store's error and
  stores nothing.
\<close>

theorem Register_malformed_payload_store_refuses_counterexample:
  "json_Unmarshal_Identity demo_refusing_empty_key ''{not json'' zero_Identity =
     (zero_Identity, Some ''invalid character'')
   \<and> Register demo_refusing_empty_key Map.empty [''{not json''] =
       (Inr (Error ''key must not be an empty string''), Map.empty)"
  by (simp add: demo_refusing_empty_key_def handler_defs demo_simps)

section \<open>The base64 error in VerifySignature\<close>

text \<open>
  C6.  \<open>VerifySignature\<close> assigns the error of \<open>base64.StdEncoding.DecodeString\<close> and
  overwrites it with the error of \<open>x509.ParsePKIXPublicKey\<close> before looking at it: its
  result does not depend on that error.  A public key on which base64 decoding fails after
  it has produced the bytes of an RSA key is accepted, and a signature is verified against
  it: here, in the executable instance, on the key \<open>Rk!\<close>.
\<close>

theorem VerifySignature_ignores_base64_error:
  "VerifySignature (X\<lparr>base64_DecodeString := \<lambda>s. (fst (base64_DecodeString X s), err s)\<rparr>) args publicKey
     = VerifySignature X args publicKey
   \<and> snd (base64_DecodeString demo ''Rk!'') = Some ''illegal base64 data''
   \<and> VerifySignature demo [''msg'', ''abcd''] ''Rk!'' = Inr None"
proof -
  have "VerifySignature (X\<lparr>base64_DecodeString := \<lambda>s. (fst (base64_DecodeString X s), err s)\<rparr>) args publicKey
     = VerifySignature X args publicKey"
    by (simp add: VerifySignature_def split_beta
        cong: list.case_cong option.case_cong sum.case_cong pkix_key.case_cong)
  moreover have "snd (base64_DecodeString demo ''Rk!'') = Some ''illegal base64 data''"
    by (simp add: demo_simps)
  moreover have "VerifySignature demo [''msg'', ''abcd''] ''Rk!'' = Inr None"
    by (simp add: VerifySignature_def demo_simps)
  ultimately show ?thesis by blast
qed

section \<open>Invoke on an unknown function\<close>

lemma Invoke_unknown:
  "function \<notin> {''Register'', ''UpdateUserData'', ''AddKey'', ''GetPublicKey'', ''GetUserData''} \<Longrightarrow>
   Invoke X st function args =
     (case args of [] \<Rightarrow> (Inl IndexOutOfRange, st) | a0 # _ \<Rightarrow> (Inr (Error (unknown_action @ a0)), st))"
  by (simp add: Invoke_def)

text \<open>
  C7.  On a function name that is none of the five, \<open>Invoke\<close> puts \<open>args[0]\<close>, the first
  parameter after the function name, into its message, not the function name: for the
  function \<open>Transfer\<close> with the parameters \<open>alice\<close> and \<open>100\<close> the message ends in
  \<open>alice\<close>; with no parameter at all the index expression panics.
\<close>

theorem Invoke_unknown_function_reports_first_parameter:
  "Invoke X st ''Transfer'' [''alice'', ''100''] = (Inr (Error (unknown_action @ ''alice'')), st)
   \<and> unknown_action @ ''alice'' \<noteq> unknown_action @ ''Transfer''
   \<and> Invoke X st ''Transfer'' [] = (Inl IndexOutOfRange, st)"
  by (simp add: Invoke_unknown)

end
